theory Spec2Isabelle
  imports Main
begin

section \<open>Path Collector (dev/glob_files.py)\<close>

text \<open>
  The script expands each command-line pattern with \<open>glob.glob\<close>, collects the matches
  in one list, joins them with a newline, replaces every backslash by a forward slash,
  prints the result and returns 0.

  \<open>glob.glob\<close> reads the file system and is not part of the repository: it is a
  parameter \<open>glob\<close> of the model, giving for each pattern its matches in the order the
  file system enumerates them. It returns the empty list for a pattern that matches
  nothing and does not raise.
\<close>

type_synonym path = string

definition newline :: char where
  "newline = CHR 0x0A"

definition backslash :: char where
  "backslash = CHR 0x5C"

definition slash :: char where
  "slash = CHR 0x2F"

text \<open>\<open>sep.join(xs)\<close> of Python: the strings of \<open>xs\<close> with \<open>sep\<close> between neighbours.\<close>

fun join :: "string \<Rightarrow> string list \<Rightarrow> string" where
  "join sep [] = []"
| "join sep [x] = x"
| "join sep (x # y # ys) = x @ sep @ join sep (y # ys)"

text \<open>
  \<open>s.replace(old, new)\<close> as the script calls it, with \<open>old\<close> and \<open>new\<close> one character
  each: every occurrence of \<open>old\<close> becomes \<open>new\<close>.
\<close>

fun replace :: "char \<Rightarrow> char \<Rightarrow> string \<Rightarrow> string" where
  "replace old new [] = []"
| "replace old new (c # cs) = (if c = old then new else c) # replace old new cs"

text \<open>
  The loop \<open>for pattern in argv[1:]: files.extend(glob.glob(pattern))\<close>, with the list
  \<open>files\<close> as accumulator.
\<close>

fun collect :: "(string \<Rightarrow> path list) \<Rightarrow> string list \<Rightarrow> path list \<Rightarrow> path list" where
  "collect glob [] files = files"
| "collect glob (pattern # patterns) files = collect glob patterns (files @ glob pattern)"

text \<open>The string handed to \<open>print\<close>: replacement is applied to the joined string.\<close>

definition printed :: "(string \<Rightarrow> path list) \<Rightarrow> string list \<Rightarrow> string" where
  "printed glob argv = replace backslash slash (join [newline] (collect glob (drop 1 argv) []))"

text \<open>
  The spec's wording of the same string: each path is normalised first, then the paths
  are joined.
\<close>

definition normalize_then_join :: "path list \<Rightarrow> string" where
  "normalize_then_join paths = join [newline] (map (replace backslash slash) paths)"

record collector_run =
  stdout :: string
  exit_status :: nat

text \<open>\<open>main(argv)\<close> under \<open>sys.exit\<close>: \<open>print\<close> writes its argument and a newline.\<close>

definition glob_files_main :: "(string \<Rightarrow> path list) \<Rightarrow> string list \<Rightarrow> collector_run" where
  "glob_files_main glob argv = \<lparr>stdout = printed glob argv @ [newline], exit_status = 0\<rparr>"

text \<open>
  A directory for the examples: \<open>abc.txt\<close> and two files under \<open>w\<close>, listed with the
  backslash separator of the host; nothing matches \<open>*.missing\<close>.
\<close>

definition example_glob :: "string \<Rightarrow> path list" where
  "example_glob pattern =
     (if pattern = ''a*.txt'' then [''abc.txt'']
      else if pattern = ''w/*'' then [''w'' @ [backslash] @ ''x'', ''w'' @ [backslash] @ ''y'']
      else [])"

section \<open>Schema Appender (lullaby/tools/generate_entity_schema.py)\<close>

text \<open>
  The script parses four required flags, copies the input file to the output path with
  \<open>shutil.copyfile\<close>, reads the append file, reopens the output file in append mode
  and writes the text read and the \<open>file_identifier\<close> line.

  The file system is a map from paths to the bytes of the files, with the permissions
  that decide whether \<open>open\<close> succeeds and the largest size a file may be written to
  (a full device or a file-size limit), if there is one. A path names its file: two
  different paths are two different files.

  \<open>copyfile\<close> copies bytes. The append file is read and the output file is written in
  text mode: reading decodes the bytes and turns every line end into a line feed,
  writing turns every line feed into the line separator of the platform and encodes.
  Text is represented by its encoding (the codec keeps ASCII, so a line end is the same
  bytes before and after decoding); the codec only decides which byte strings decode and
  which texts encode.

  An exception that leaves \<open>main\<close>, \<open>SystemExit\<close> included, is an \<open>error\<close> value,
  returned with the file system as the failure left it.
\<close>

datatype error =
    HelpExit
  | UsageError
  | SameFileError path path
  | FileNotFound path
  | AccessDenied path
  | DecodeError path
  | EncodeError path
  | WriteError path

record filesystem =
  files :: "path \<rightharpoonup> string"
  readable :: "path \<Rightarrow> bool"
  writable :: "path \<Rightarrow> bool"
  max_size :: "nat option"

record platform =
  decodable :: "string \<Rightarrow> bool"
  encodable :: "string \<Rightarrow> bool"
  linesep :: string

text \<open>
  The command line as \<open>argparse\<close> sees it: whether \<open>-h\<close> or \<open>--help\<close> is given, and for
  each of the four flags the value given, if any.
\<close>

record cmdline =
  arg_help :: bool
  arg_infile :: "string option"
  arg_appendfile :: "string option"
  arg_outfile :: "string option"
  arg_identifier :: "string option"

record args =
  infile :: path
  appendfile :: path
  outfile :: path
  "identifier" :: string

text \<open>
  \<open>parser.parse_args()\<close>. The parser is built with its default help option: \<open>-h\<close> prints
  the help and ends the process with status 0 as soon as it is met, before the required
  flags are checked. Every flag is declared \<open>required=True\<close>: without help asked for, a
  missing flag ends the process with the usage message and status 2.
\<close>

definition parse_args :: "cmdline \<Rightarrow> error + args" where
  "parse_args cl =
     (if arg_help cl then Inl HelpExit else
      case arg_infile cl of None \<Rightarrow> Inl UsageError | Some i \<Rightarrow>
      case arg_appendfile cl of None \<Rightarrow> Inl UsageError | Some x \<Rightarrow>
      case arg_outfile cl of None \<Rightarrow> Inl UsageError | Some out \<Rightarrow>
      case arg_identifier cl of None \<Rightarrow> Inl UsageError | Some ident \<Rightarrow>
        Inr \<lparr>infile = i, appendfile = x, outfile = out, identifier = ident\<rparr>)"

text \<open>The bytes of the file at a path; an absent file has none.\<close>

definition contents :: "filesystem \<Rightarrow> path \<Rightarrow> string" where
  "contents fs p = (case files fs p of None \<Rightarrow> [] | Some bs \<Rightarrow> bs)"

text \<open>\<open>open(p, 'r')\<close>: the file must exist and be readable.\<close>

definition open_read :: "filesystem \<Rightarrow> path \<Rightarrow> error option" where
  "open_read fs p =
     (case files fs p of
        None \<Rightarrow> Some (FileNotFound p)
      | Some bs \<Rightarrow> if readable fs p then None else Some (AccessDenied p))"

text \<open>\<open>open(p, 'w')\<close>: creates the file or empties the one that is there.\<close>

definition open_truncate :: "path \<Rightarrow> filesystem \<Rightarrow> error + filesystem" where
  "open_truncate p fs =
     (if writable fs p then Inr (fs\<lparr>files := (files fs)(p \<mapsto> [])\<rparr>)
      else Inl (AccessDenied p))"

text \<open>\<open>open(p, 'a')\<close>: creates the file if it is absent and keeps what it holds.\<close>

definition open_append :: "path \<Rightarrow> filesystem \<Rightarrow> error + filesystem" where
  "open_append p fs =
     (if writable fs p then Inr (fs\<lparr>files := (files fs)(p \<mapsto> contents fs p)\<rparr>)
      else Inl (AccessDenied p))"

text \<open>Whether a file of \<open>n\<close> bytes can be written.\<close>

definition fits :: "filesystem \<Rightarrow> nat \<Rightarrow> bool" where
  "fits fs n = (case max_size fs of None \<Rightarrow> True | Some m \<Rightarrow> n \<le> m)"

text \<open>
  Bytes written to the end of a file. When they do not all fit, those that fit are
  written and the write fails.
\<close>

definition write_bytes :: "path \<Rightarrow> string \<Rightarrow> filesystem \<Rightarrow> error option \<times> filesystem" where
  "write_bytes p bs fs =
     (case max_size fs of
        None \<Rightarrow> (None, fs\<lparr>files := (files fs)(p \<mapsto> contents fs p @ bs)\<rparr>)
      | Some m \<Rightarrow>
          if length (contents fs p) + length bs \<le> m
          then (None, fs\<lparr>files := (files fs)(p \<mapsto> contents fs p @ bs)\<rparr>)
          else (Some (WriteError p),
                fs\<lparr>files := (files fs)(p \<mapsto> contents fs p @ take (m - length (contents fs p)) bs)\<rparr>))"

definition carriage_return :: char where
  "carriage_return = CHR 0x0D"

text \<open>
  Reading in text mode: a carriage return followed by a line feed, and a carriage return
  alone, each become one line feed.
\<close>

fun universal_newlines :: "string \<Rightarrow> string" where
  "universal_newlines [] = []"
| "universal_newlines [c] = [if c = carriage_return then newline else c]"
| "universal_newlines (c # d # ds) =
     (if c = carriage_return \<and> d = newline then newline # universal_newlines ds
      else if c = carriage_return then newline # universal_newlines (d # ds)
      else c # universal_newlines (d # ds))"

text \<open>Writing in text mode: every line feed becomes the line separator.\<close>

definition translate_out :: "string \<Rightarrow> string \<Rightarrow> string" where
  "translate_out sep txt = concat (map (\<lambda>c. if c = newline then sep else [c]) txt)"

text \<open>\<open>f.read()\<close> on a file opened with \<open>'r'\<close>.\<close>

definition read_text :: "platform \<Rightarrow> filesystem \<Rightarrow> path \<Rightarrow> error + string" where
  "read_text pf fs p =
     (if decodable pf (contents fs p) then Inr (universal_newlines (contents fs p))
      else Inl (DecodeError p))"

text \<open>
  \<open>f.write(txt)\<close> on a file opened with \<open>'a'\<close>: the text is encoded whole, which fails
  before anything of it is written, and its bytes go to the end of the file.
\<close>

definition file_write :: "platform \<Rightarrow> path \<Rightarrow> string \<Rightarrow> filesystem \<Rightarrow> error option \<times> filesystem" where
  "file_write pf p txt fs =
     (if encodable pf txt then write_bytes p (translate_out (linesep pf) txt) fs
      else (Some (EncodeError p), fs))"

text \<open>
  \<open>shutil.copyfile(src, dst)\<close>: it refuses to copy a file onto itself, opens the source
  for reading, then the destination for writing, then copies the bytes.
\<close>

definition samefile :: "filesystem \<Rightarrow> path \<Rightarrow> path \<Rightarrow> bool" where
  "samefile fs src dst = (src = dst \<and> files fs src \<noteq> None)"

definition copyfile :: "path \<Rightarrow> path \<Rightarrow> filesystem \<Rightarrow> error option \<times> filesystem" where
  "copyfile src dst fs =
     (if samefile fs src dst then (Some (SameFileError src dst), fs)
      else case open_read fs src of
        Some e \<Rightarrow> (Some e, fs)
      | None \<Rightarrow>
          (case open_truncate dst fs of
             Inl e \<Rightarrow> (Some e, fs)
           | Inr fs1 \<Rightarrow> write_bytes dst (contents fs1 src) fs1))"

definition quote :: char where
  "quote = CHR 0x22"

text \<open>\<open>'file_identifier "%s";' % identifier\<close>\<close>

definition identifier_line :: "string \<Rightarrow> string" where
  "identifier_line ident = ''file_identifier '' @ [quote] @ ident @ [quote] @ '';''"

text \<open>
  \<open>main()\<close>: the exception that ended the run, if any, and the file system the run
  leaves.
\<close>

definition generate_entity_schema_main ::
  "platform \<Rightarrow> cmdline \<Rightarrow> filesystem \<Rightarrow> error option \<times> filesystem" where
  "generate_entity_schema_main pf cl fs =
     (case parse_args cl of
        Inl e \<Rightarrow> (Some e, fs)
      | Inr a \<Rightarrow>
          (case copyfile (infile a) (outfile a) fs of
             (Some e, fs1) \<Rightarrow> (Some e, fs1)
           | (None, fs1) \<Rightarrow>
               (case open_read fs1 (appendfile a) of
                  Some e \<Rightarrow> (Some e, fs1)
                | None \<Rightarrow>
                    (case read_text pf fs1 (appendfile a) of
                       Inl e \<Rightarrow> (Some e, fs1)
                     | Inr txt \<Rightarrow>
                         (case open_append (outfile a) fs1 of
                            Inl e \<Rightarrow> (Some e, fs1)
                          | Inr fs2 \<Rightarrow>
                              (case file_write pf (outfile a) txt fs2 of
                                 (Some e, fs3) \<Rightarrow> (Some e, fs3)
                               | (None, fs3) \<Rightarrow>
                                   file_write pf (outfile a)
                                     (identifier_line (identifier a)) fs3))))))"

text \<open>
  The status the process exits with: 0 when \<open>main\<close> returns and after the help, 2 for
  the usage error, 1 for an exception that nothing catches.
\<close>

fun exit_code :: "error option \<Rightarrow> nat" where
  "exit_code None = 0"
| "exit_code (Some HelpExit) = 0"
| "exit_code (Some UsageError) = 2"
| "exit_code (Some e) = 1"

text \<open>
  The text a run appends after the copy of the input file: the append file as text mode
  reads it (the copy of the input file, when the append path is the output path).
\<close>

definition appended_source :: "args \<Rightarrow> filesystem \<Rightarrow> string" where
  "appended_source a fs =
     (if appendfile a = outfile a then contents fs (infile a) else contents fs (appendfile a))"

definition output_bytes :: "platform \<Rightarrow> args \<Rightarrow> filesystem \<Rightarrow> string" where
  "output_bytes pf a fs =
     contents fs (infile a)
     @ translate_out (linesep pf) (universal_newlines (appended_source a fs))
     @ translate_out (linesep pf) (identifier_line (identifier a))"

text \<open>
  When a run with parsed arguments \<open>a\<close> goes through, and the file system it leaves:
  the two are proved below to describe \<open>generate_entity_schema_main\<close>.
\<close>

definition run_ok :: "platform \<Rightarrow> args \<Rightarrow> filesystem \<Rightarrow> bool" where
  "run_ok pf a fs \<longleftrightarrow>
     files fs (infile a) \<noteq> None \<and> infile a \<noteq> outfile a \<and> readable fs (infile a)
     \<and> writable fs (outfile a) \<and> readable fs (appendfile a)
     \<and> (appendfile a = outfile a \<or> files fs (appendfile a) \<noteq> None)
     \<and> decodable pf (appended_source a fs)
     \<and> encodable pf (universal_newlines (appended_source a fs))
     \<and> encodable pf (identifier_line (identifier a))
     \<and> fits fs (length (output_bytes pf a fs))"

definition run_result :: "platform \<Rightarrow> args \<Rightarrow> filesystem \<Rightarrow> filesystem" where
  "run_result pf a fs = fs\<lparr>files := (files fs)(outfile a \<mapsto> output_bytes pf a fs)\<rparr>"

text \<open>
  What a run does once the copy of the input file \<open>inp\<close> is at the output path, step by
  step: proved below to be what \<open>generate_entity_schema_main\<close> does from there.
\<close>

definition after_copy :: "platform \<Rightarrow> args \<Rightarrow> string \<Rightarrow> filesystem \<Rightarrow> error option \<times> filesystem" where
  "after_copy pf a inp fs =
     (let out = outfile a; x = appendfile a;
          fs1 = fs\<lparr>files := (files fs)(out \<mapsto> inp)\<rparr>;
          txt = universal_newlines (appended_source a fs);
          bs = translate_out (linesep pf) txt;
          line = translate_out (linesep pf) (identifier_line (identifier a))
      in if x \<noteq> out \<and> files fs x = None then (Some (FileNotFound x), fs1)
         else if \<not> readable fs x then (Some (AccessDenied x), fs1)
         else if \<not> decodable pf (appended_source a fs) then (Some (DecodeError x), fs1)
         else if \<not> encodable pf txt then (Some (EncodeError out), fs1)
         else if \<not> fits fs (length inp + length bs)
           then (Some (WriteError out),
                 fs\<lparr>files := (files fs)(out \<mapsto> inp @ take (the (max_size fs) - length inp) bs)\<rparr>)
         else if \<not> encodable pf (identifier_line (identifier a))
           then (Some (EncodeError out), fs\<lparr>files := (files fs)(out \<mapsto> inp @ bs)\<rparr>)
         else if \<not> fits fs (length inp + length bs + length line)
           then (Some (WriteError out),
                 fs\<lparr>files := (files fs)(out \<mapsto>
                    inp @ bs @ take (the (max_size fs) - (length inp + length bs)) line)\<rparr>)
         else (None, fs\<lparr>files := (files fs)(out \<mapsto> inp @ bs @ line)\<rparr>))"

text \<open>
  The files of scenario 3 of the spec, every path readable and writable and no limit on
  the size of a file; a platform whose line separator is the line feed and whose codec
  rejects the byte \<open>0xFF\<close>; and a command line with the identifier \<open>FOOX\<close>.
\<close>

definition example_fs :: filesystem where
  "example_fs =
     \<lparr>files = Map.empty(''component.fbs'' \<mapsto> ''table Foo {}'' @ [newline],
                         ''entity.fbs'' \<mapsto> ''table Bar {}'' @ [newline]),
      readable = (\<lambda>p. True),
      writable = (\<lambda>p. True),
      max_size = None\<rparr>"

definition example_platform :: platform where
  "example_platform =
     \<lparr>decodable = (\<lambda>bs. CHR 0xFF \<notin> set bs),
      encodable = (\<lambda>txt. CHR 0xFF \<notin> set txt),
      linesep = [newline]\<rparr>"

definition example_cmdline :: "path \<Rightarrow> path \<Rightarrow> path \<Rightarrow> cmdline" where
  "example_cmdline i x out =
     \<lparr>arg_help = False, arg_infile = Some i, arg_appendfile = Some x,
      arg_outfile = Some out, arg_identifier = Some ''FOOX''\<rparr>"

text \<open>Scenario 4 of the spec: the command line without \<open>--infile\<close>.\<close>

definition example_no_infile :: cmdline where
  "example_no_infile =
     \<lparr>arg_help = False, arg_infile = None, arg_appendfile = Some ''entity.fbs'',
      arg_outfile = Some ''out.fbs'', arg_identifier = Some ''FOOX''\<rparr>"

text \<open>The command line \<open>-h\<close>, with no other flag.\<close>

definition example_help :: cmdline where
  "example_help =
     \<lparr>arg_help = True, arg_infile = None, arg_appendfile = None,
      arg_outfile = None, arg_identifier = None\<rparr>"

text \<open>
  An append file with the line ends of another host, and the example files with it.
\<close>

definition example_crlf_fs :: filesystem where
  "example_crlf_fs =
     example_fs\<lparr>files := (files example_fs)
       (''entity.fbs'' \<mapsto> ''table Bar {}'' @ [carriage_return, newline])\<rparr>"

text \<open>The same for the input file.\<close>

definition example_crlf_input_fs :: filesystem where
  "example_crlf_input_fs =
     example_fs\<lparr>files := (files example_fs)
       (''component.fbs'' \<mapsto> ''table Foo {}'' @ [carriage_return, newline])\<rparr>"

text \<open>The example files where nothing can be opened for writing.\<close>

definition example_readonly_fs :: filesystem where
  "example_readonly_fs = example_fs\<lparr>writable := (\<lambda>p. False)\<rparr>"

text \<open>The example files on a device that takes no file beyond 20 bytes.\<close>

definition example_small_fs :: filesystem where
  "example_small_fs = example_fs\<lparr>max_size := Some 20\<rparr>"

text \<open>A command line whose identifier the codec cannot encode.\<close>

definition example_bad_identifier :: cmdline where
  "example_bad_identifier =
     \<lparr>arg_help = False, arg_infile = Some ''component.fbs'',
      arg_appendfile = Some ''entity.fbs'', arg_outfile = Some ''out.fbs'',
      arg_identifier = Some [CHR 0xFF]\<rparr>"

section \<open>Properties of the Path Collector\<close>

lemma collect_eq_concat: "collect glob patterns acc = acc @ concat (map glob patterns)"
  by (induction patterns arbitrary: acc) simp_all

lemma replace_eq_map: "replace old new s = map (\<lambda>c. if c = old then new else c) s"
  by (induction s) simp_all

lemma replace_append: "replace old new (s @ t) = replace old new s @ replace old new t"
  by (simp add: replace_eq_map)

lemma replace_absent: "old \<notin> set s \<Longrightarrow> replace old new s = s"
  by (induction s) auto

lemma replace_sep_join:
  "old \<notin> set sep \<Longrightarrow>
   replace old new (join sep paths) = join sep (map (replace old new) paths)"
proof (induction sep paths rule: join.induct)
  case (3 sep x y ys)
  have "replace old new sep = sep"
    using "3.prems" by (rule replace_absent)
  with 3 show ?case by (simp add: replace_append)
qed simp_all

lemma replace_removes: "old \<noteq> new \<Longrightarrow> old \<notin> set (replace old new s)"
  by (induction s) simp_all

lemma backslash_not_slash: "backslash \<noteq> slash"
  by (simp add: backslash_def slash_def)

lemma backslash_not_newline: "backslash \<notin> set [newline]"
  by (simp add: backslash_def newline_def)

lemma printed_eq: "printed glob argv = normalize_then_join (concat (map glob (drop 1 argv)))"
  unfolding printed_def normalize_then_join_def
  by (simp add: collect_eq_concat replace_sep_join [OF backslash_not_newline])

lemma concat_all_empty: "(\<forall>p \<in> set ps. glob p = []) \<Longrightarrow> concat (map glob ps) = []"
  by (induction ps) simp_all

text \<open>
  Claim C2. For every argument list, the string the Path Collector prints is the
  newline-joined list of the matches of each pattern, pattern after pattern in argument
  order and each pattern's matches in the order \<open>glob\<close> lists them, with every backslash
  of every path replaced by a forward slash. No backslash is left in it. Nothing is
  deduplicated: the list holds as many paths as the patterns have matches together.
  Standard output receives that string and the newline \<open>print\<close> adds, and the status is 0.
\<close>

theorem path_collector_output:
  "printed glob argv
     = join [newline] (map (replace backslash slash) (concat (map glob (drop 1 argv))))
   \<and> backslash \<notin> set (printed glob argv)
   \<and> length (collect glob (drop 1 argv) []) = sum_list (map (\<lambda>p. length (glob p)) (drop 1 argv))
   \<and> stdout (glob_files_main glob argv) = printed glob argv @ [newline]
   \<and> exit_status (glob_files_main glob argv) = 0"
proof -
  have joined: "printed glob argv
      = join [newline] (map (replace backslash slash) (concat (map glob (drop 1 argv))))"
    using printed_eq [of glob argv] by (simp add: normalize_then_join_def)
  have clean: "backslash \<notin> set (printed glob argv)"
    unfolding printed_def by (rule replace_removes [OF backslash_not_slash])
  have count: "length (collect glob (drop 1 argv) [])
      = sum_list (map (\<lambda>p. length (glob p)) (drop 1 argv))"
    by (simp add: collect_eq_concat length_concat comp_def)
  show ?thesis
    using joined clean count by (simp add: glob_files_main_def)
qed

text \<open>
  Claim C6. With no pattern on the command line (only the program name, or an empty
  \<open>argv\<close>) the printed string is empty, standard output receives only the newline of
  \<open>print\<close>, and the status is 0.
\<close>

theorem path_collector_no_patterns:
  "printed glob [prog] = []
   \<and> printed glob [] = []
   \<and> glob_files_main glob [prog] = \<lparr>stdout = [newline], exit_status = 0\<rparr>
   \<and> glob_files_main glob [] = \<lparr>stdout = [newline], exit_status = 0\<rparr>"
  by (simp add: printed_def glob_files_main_def)

text \<open>
  Claim C7. A pattern that matches nothing is no error: it adds no path, so the printed
  string is the same with the pattern as without it, and when no pattern of the command
  line matches anything the printed string is empty and the status is 0.
\<close>

theorem path_collector_no_match:
  "(glob p = [] \<longrightarrow>
      printed glob (prog # ps @ p # qs) = printed glob (prog # ps @ qs)
      \<and> exit_status (glob_files_main glob (prog # ps @ p # qs)) = 0)
   \<and> ((\<forall>q \<in> set (drop 1 argv). glob q = []) \<longrightarrow>
      printed glob argv = []
      \<and> glob_files_main glob argv = \<lparr>stdout = [newline], exit_status = 0\<rparr>)"
  by (simp add: printed_def glob_files_main_def collect_eq_concat concat_all_empty)

theorem path_collector_no_match_witness:
  "example_glob ''*.missing'' = []
   \<and> printed example_glob (''prog'' # [''a*.txt''] @ ''*.missing'' # [''w/*''])
       = printed example_glob (''prog'' # [''a*.txt''] @ [''w/*''])
   \<and> printed example_glob (''prog'' # [''a*.txt''] @ [''w/*''])
       = ''abc.txt'' @ [newline] @ ''w/x'' @ [newline] @ ''w/y''
   \<and> exit_status (glob_files_main example_glob (''prog'' # [''a*.txt''] @ ''*.missing'' # [''w/*''])) = 0
   \<and> example_glob ''*.absent'' = []
   \<and> printed example_glob [''prog'', ''*.missing'', ''*.absent''] = []
   \<and> glob_files_main example_glob [''prog'', ''*.missing'', ''*.absent'']
       = \<lparr>stdout = [newline], exit_status = 0\<rparr>"
proof -
  have none: "example_glob ''*.missing'' = []"
    by (simp add: example_glob_def)
  have all_none: "\<forall>q \<in> set (drop 1 [''prog'', ''*.missing'', ''*.absent'']). example_glob q = []"
    by (simp add: example_glob_def)
  have shown: "printed example_glob (''prog'' # [''a*.txt''] @ [''w/*''])
      = ''abc.txt'' @ [newline] @ ''w/x'' @ [newline] @ ''w/y''"
    by (simp add: printed_def example_glob_def backslash_def slash_def newline_def)
  show ?thesis
    using none all_none shown example_glob_def [of "''*.absent''"]
      path_collector_no_match [of example_glob "''*.missing''" "''prog''" "[''a*.txt'']" "[''w/*'']"
        "[''prog'', ''*.missing'', ''*.absent'']"]
    by simp
qed

text \<open>
  Claim C9. Replacing the backslashes of the joined string, as the code does, gives the
  same string as joining the paths after replacing the backslashes of each, as the spec
  words it, for every list of paths.
\<close>

theorem replace_after_join_is_join_of_replaced:
  "replace backslash slash (join [newline] paths) = normalize_then_join paths"
  unfolding normalize_then_join_def
  by (rule replace_sep_join [OF backslash_not_newline])

section \<open>Properties of the Schema Appender\<close>

subsection \<open>Writing and copying\<close>

lemma fits_mono: "fits fs n \<Longrightarrow> k \<le> n \<Longrightarrow> fits fs k"
  by (auto simp: fits_def split: option.splits)

lemma write_bytes_fits:
  "fits fs (length (contents fs p) + length bs) \<Longrightarrow>
   write_bytes p bs fs = (None, fs\<lparr>files := (files fs)(p \<mapsto> contents fs p @ bs)\<rparr>)"
  by (auto simp: write_bytes_def fits_def split: option.splits)

lemma write_bytes_full:
  "\<not> fits fs (length (contents fs p) + length bs) \<Longrightarrow>
   write_bytes p bs fs =
     (Some (WriteError p),
      fs\<lparr>files := (files fs)(p \<mapsto>
        contents fs p @ take (the (max_size fs) - length (contents fs p)) bs)\<rparr>)"
  by (auto simp: write_bytes_def fits_def split: option.splits)

lemma copyfile_cases:
  "copyfile src dst fs =
     (if src = dst \<and> files fs src \<noteq> None then (Some (SameFileError src dst), fs)
      else case files fs src of
        None \<Rightarrow> (Some (FileNotFound src), fs)
      | Some inp \<Rightarrow>
          if \<not> readable fs src then (Some (AccessDenied src), fs)
          else if \<not> writable fs dst then (Some (AccessDenied dst), fs)
          else if fits fs (length inp) then (None, fs\<lparr>files := (files fs)(dst \<mapsto> inp)\<rparr>)
          else (Some (WriteError dst),
                fs\<lparr>files := (files fs)(dst \<mapsto> take (the (max_size fs)) inp)\<rparr>))"
  by (auto simp: copyfile_def samefile_def open_read_def open_truncate_def write_bytes_def
      fits_def contents_def split: option.splits)

lemma copyfile_ok:
  assumes "fst (copyfile src dst fs) = None"
  obtains inp where "files fs src = Some inp" "src \<noteq> dst" "readable fs src" "writable fs dst"
    "fits fs (length inp)" "copyfile src dst fs = (None, fs\<lparr>files := (files fs)(dst \<mapsto> inp)\<rparr>)"
  using assms by (auto simp: copyfile_cases split: option.splits if_splits)

subsection \<open>The run after the copy\<close>

lemma fits_upd [simp]: "fits (fs\<lparr>files := f\<rparr>) n = fits fs n"
  by (simp add: fits_def)

lemma contents_upd:
  "contents (fs\<lparr>files := (files fs)(p \<mapsto> bs)\<rparr>) q = (if q = p then bs else contents fs q)"
  by (simp add: contents_def)

lemma main_after_copy:
  assumes p: "parse_args cl = Inr a"
    and c: "copyfile (infile a) (outfile a) fs
              = (None, fs\<lparr>files := (files fs)(outfile a \<mapsto> inp)\<rparr>)"
    and i: "files fs (infile a) = Some inp" "infile a \<noteq> outfile a" "writable fs (outfile a)"
  shows "generate_entity_schema_main pf cl fs = after_copy pf a inp fs"
proof -
  let ?out = "outfile a"
  let ?x = "appendfile a"
  let ?fs1 = "fs\<lparr>files := (files fs)(?out \<mapsto> inp)\<rparr>"
  let ?src = "appended_source a fs"
  let ?t = "universal_newlines ?src"
  let ?bs = "translate_out (linesep pf) ?t"
  let ?idl = "identifier_line (identifier a)"
  let ?line = "translate_out (linesep pf) ?idl"
  let ?fs2 = "fs\<lparr>files := (files fs)(?out \<mapsto> inp @ ?bs)\<rparr>"
  note defs = generate_entity_schema_main_def after_copy_def Let_def
  have src: "contents ?fs1 ?x = ?src"
    using i by (simp add: contents_upd appended_source_def contents_def)
  have app: "open_append ?out ?fs1 = Inr ?fs1"
    using i by (simp add: open_append_def contents_upd)
  have cont1: "contents ?fs1 ?out = inp" and cont2: "contents ?fs2 ?out = inp @ ?bs"
    by (simp_all add: contents_upd)
  show ?thesis
  proof (cases "?x \<noteq> ?out \<and> files fs ?x = None")
    case True
    then have "open_read ?fs1 ?x = Some (FileNotFound ?x)"
      by (simp add: open_read_def)
    with True show ?thesis by (simp add: defs p c)
  next
    case exists: False
    show ?thesis
    proof (cases "readable fs ?x")
      case False
      with exists have "open_read ?fs1 ?x = Some (AccessDenied ?x)"
        by (auto simp: open_read_def split: option.splits)
      with exists False show ?thesis by (simp add: defs p c)
    next
      case rd: True
      with exists have opened: "open_read ?fs1 ?x = None"
        by (auto simp: open_read_def split: option.splits)
      show ?thesis
      proof (cases "decodable pf ?src")
        case False
        then have "read_text pf ?fs1 ?x = Inl (DecodeError ?x)"
          by (simp add: read_text_def src)
        with exists rd False show ?thesis by (simp add: defs p c opened)
      next
        case dec: True
        then have got: "read_text pf ?fs1 ?x = Inr ?t"
          by (simp add: read_text_def src)
        show ?thesis
        proof (cases "encodable pf ?t")
          case False
          then have "file_write pf ?out ?t ?fs1 = (Some (EncodeError ?out), ?fs1)"
            by (simp add: file_write_def)
          with exists rd dec False show ?thesis by (simp add: defs p c opened got app)
        next
          case enc: True
          show ?thesis
          proof (cases "fits fs (length inp + length ?bs)")
            case False
            with enc have "file_write pf ?out ?t ?fs1 =
                (Some (WriteError ?out),
                 fs\<lparr>files := (files fs)(?out \<mapsto> inp @ take (the (max_size fs) - length inp) ?bs)\<rparr>)"
              by (simp add: file_write_def write_bytes_full cont1)
            with exists rd dec enc False show ?thesis by (simp add: defs p c opened got app)
          next
            case room: True
            with enc have w1: "file_write pf ?out ?t ?fs1 = (None, ?fs2)"
              by (simp add: file_write_def write_bytes_fits cont1)
            show ?thesis
            proof (cases "encodable pf ?idl")
              case False
              then have "file_write pf ?out ?idl ?fs2 = (Some (EncodeError ?out), ?fs2)"
                by (simp add: file_write_def)
              with exists rd dec enc room False show ?thesis
                by (simp add: defs p c opened got app w1)
            next
              case enc2: True
              show ?thesis
              proof (cases "fits fs (length inp + length ?bs + length ?line)")
                case False
                with enc2 have "file_write pf ?out ?idl ?fs2 =
                    (Some (WriteError ?out),
                     fs\<lparr>files := (files fs)(?out \<mapsto>
                        inp @ ?bs @ take (the (max_size fs) - (length inp + length ?bs)) ?line)\<rparr>)"
                  by (simp add: file_write_def write_bytes_full cont2)
                with exists rd dec enc room enc2 False show ?thesis
                  by (simp add: defs p c opened got app w1)
              next
                case True
                with enc2 have "file_write pf ?out ?idl ?fs2 =
                    (None, fs\<lparr>files := (files fs)(?out \<mapsto> inp @ ?bs @ ?line)\<rparr>)"
                  by (simp add: file_write_def write_bytes_fits cont2)
                with exists rd dec enc room enc2 True show ?thesis
                  by (simp add: defs p c opened got app w1)
              qed
            qed
          qed
        qed
      qed
    qed
  qed
qed

subsection \<open>Successful runs\<close>

lemma main_copy_failed:
  "parse_args cl = Inr a \<Longrightarrow> fst (copyfile (infile a) (outfile a) fs) = Some e \<Longrightarrow>
   generate_entity_schema_main pf cl fs = copyfile (infile a) (outfile a) fs"
  by (cases "copyfile (infile a) (outfile a) fs") (simp add: generate_entity_schema_main_def)

lemma main_copied:
  assumes "parse_args cl = Inr a" "fst (copyfile (infile a) (outfile a) fs) = None"
  obtains inp where "files fs (infile a) = Some inp" "infile a \<noteq> outfile a"
    "readable fs (infile a)" "writable fs (outfile a)" "fits fs (length inp)"
    "copyfile (infile a) (outfile a) fs = (None, fs\<lparr>files := (files fs)(outfile a \<mapsto> inp)\<rparr>)"
    "generate_entity_schema_main pf cl fs = after_copy pf a inp fs"
proof -
  from assms(2) obtain inp where f: "files fs (infile a) = Some inp" "infile a \<noteq> outfile a"
    "readable fs (infile a)" "writable fs (outfile a)" "fits fs (length inp)"
    "copyfile (infile a) (outfile a) fs = (None, fs\<lparr>files := (files fs)(outfile a \<mapsto> inp)\<rparr>)"
    by (rule copyfile_ok)
  from main_after_copy [OF assms(1) f(6) f(1,2,4)] f show ?thesis
    by (rule that [rotated -1])
qed

lemma output_bytes_length:
  "files fs (infile a) = Some inp \<Longrightarrow>
   length (output_bytes pf a fs) =
     length inp + length (translate_out (linesep pf) (universal_newlines (appended_source a fs)))
     + length (translate_out (linesep pf) (identifier_line (identifier a)))"
  by (simp add: output_bytes_def contents_def)

lemma main_succeeds:
  assumes p: "parse_args cl = Inr a" and ok: "run_ok pf a fs"
  shows "generate_entity_schema_main pf cl fs = (None, run_result pf a fs)"
proof -
  from ok obtain inp where inp: "files fs (infile a) = Some inp"
    by (auto simp: run_ok_def)
  from ok have room: "fits fs (length (output_bytes pf a fs))"
    by (simp add: run_ok_def)
  note len = output_bytes_length [OF inp, of pf]
  have r1: "fits fs (length inp)"
    and r2: "fits fs (length inp
        + length (translate_out (linesep pf) (universal_newlines (appended_source a fs))))"
    and r3: "fits fs (length inp
        + length (translate_out (linesep pf) (universal_newlines (appended_source a fs)))
        + length (translate_out (linesep pf) (identifier_line (identifier a))))"
    using room len by (auto intro: fits_mono)
  from ok have rest: "infile a \<noteq> outfile a" "readable fs (infile a)" "writable fs (outfile a)"
    "readable fs (appendfile a)" "appendfile a = outfile a \<or> files fs (appendfile a) \<noteq> None"
    "decodable pf (appended_source a fs)"
    "encodable pf (universal_newlines (appended_source a fs))"
    "encodable pf (identifier_line (identifier a))"
    by (simp_all add: run_ok_def)
  have c: "copyfile (infile a) (outfile a) fs
      = (None, fs\<lparr>files := (files fs)(outfile a \<mapsto> inp)\<rparr>)"
    using inp rest(1-3) r1 by (simp add: copyfile_cases)
  have "generate_entity_schema_main pf cl fs = after_copy pf a inp fs"
    using p c inp rest(1,3) by (rule main_after_copy)
  also have "\<dots> = (None, run_result pf a fs)"
    using rest(4-8) r2 r3 inp
    by (auto simp: after_copy_def Let_def run_result_def output_bytes_def contents_def)
  finally show ?thesis .
qed

lemma main_success:
  assumes "fst (generate_entity_schema_main pf cl fs) = None"
  obtains a where "parse_args cl = Inr a" "run_ok pf a fs"
proof (cases "parse_args cl")
  case (Inl e)
  with assms show ?thesis by (simp add: generate_entity_schema_main_def)
next
  case (Inr a)
  have copied: "fst (copyfile (infile a) (outfile a) fs) = None"
  proof (cases "fst (copyfile (infile a) (outfile a) fs)")
    case (Some e)
    from main_copy_failed [OF Inr Some, of pf] assms Some show ?thesis by simp
  qed simp
  from Inr copied obtain inp where f: "files fs (infile a) = Some inp" "infile a \<noteq> outfile a"
    "readable fs (infile a)" "writable fs (outfile a)"
    and m: "generate_entity_schema_main pf cl fs = after_copy pf a inp fs"
    by (rule main_copied)
  from assms m have "fst (after_copy pf a inp fs) = None" by simp
  then have "run_ok pf a fs"
    using f by (simp add: after_copy_def Let_def run_ok_def output_bytes_length split: if_splits)
  with Inr show ?thesis by (rule that)
qed

lemma run_result_files:
  "files (run_result pf a fs) p = (if p = outfile a then Some (output_bytes pf a fs) else files fs p)"
  by (simp add: run_result_def)

lemma run_result_perms:
  "readable (run_result pf a fs) = readable fs" "writable (run_result pf a fs) = writable fs"
  "max_size (run_result pf a fs) = max_size fs"
  by (simp_all add: run_result_def)

lemma contents_overwrite:
  "p \<noteq> out \<Longrightarrow> contents (fs\<lparr>files := (files fs)(out \<mapsto> bs)\<rparr>) p = contents fs p"
  by (simp add: contents_def)

lemma output_bytes_overwrite:
  "infile a \<noteq> outfile a \<Longrightarrow>
   output_bytes pf a (fs\<lparr>files := (files fs)(outfile a \<mapsto> bs)\<rparr>) = output_bytes pf a fs"
  by (simp add: output_bytes_def appended_source_def contents_overwrite)

lemma run_ok_overwrite:
  assumes "run_ok pf a fs"
  shows "run_ok pf a (fs\<lparr>files := (files fs)(outfile a \<mapsto> old)\<rparr>)"
proof -
  from assms have ne: "infile a \<noteq> outfile a" by (simp add: run_ok_def)
  have src: "appended_source a (fs\<lparr>files := (files fs)(outfile a \<mapsto> old)\<rparr>)
      = appended_source a fs"
    using ne by (simp add: appended_source_def contents_overwrite)
  show ?thesis
    using assms ne unfolding run_ok_def src output_bytes_overwrite [OF ne]
    by auto
qed

lemma run_result_overwrite:
  assumes "run_ok pf a fs"
  shows "run_result pf a (fs\<lparr>files := (files fs)(outfile a \<mapsto> old)\<rparr>) = run_result pf a fs"
proof -
  from assms have ne: "infile a \<noteq> outfile a" by (simp add: run_ok_def)
  then show ?thesis
    by (simp add: run_result_def output_bytes_overwrite)
qed

lemma run_ok_result: "run_ok pf a fs \<Longrightarrow> run_ok pf a (run_result pf a fs)"
  unfolding run_result_def by (rule run_ok_overwrite)

lemma run_result_idem:
  "run_ok pf a fs \<Longrightarrow> run_result pf a (run_result pf a fs) = run_result pf a fs"
  using run_result_overwrite [of pf a fs "output_bytes pf a fs"]
  by (simp add: run_result_def [of pf a fs])

subsection \<open>Parsing, failures and line ends\<close>

lemma translate_out_newline: "translate_out [newline] t = t"
  by (induction t) (simp_all add: translate_out_def)

lemma universal_newlines_plain:
  "carriage_return \<notin> set s \<Longrightarrow> universal_newlines s = s"
  by (induction s rule: universal_newlines.induct) auto

lemma parse_args_Inr:
  "\<not> arg_help cl \<Longrightarrow> arg_infile cl = Some i \<Longrightarrow> arg_appendfile cl = Some x \<Longrightarrow>
   arg_outfile cl = Some out \<Longrightarrow> arg_identifier cl = Some ident \<Longrightarrow>
   parse_args cl = Inr \<lparr>infile = i, appendfile = x, outfile = out, identifier = ident\<rparr>"
  by (simp add: parse_args_def)


lemma parse_args_outfile:
  "parse_args cl = Inr a \<Longrightarrow> arg_outfile cl = Some (outfile a)"
  by (auto simp: parse_args_def split: option.splits if_splits)

lemma exit_code_nonzero: "e \<noteq> HelpExit \<Longrightarrow> exit_code (Some e) \<noteq> 0"
  by (cases e) simp_all

lemma copyfile_error: "fst (copyfile src dst fs) = Some e \<Longrightarrow> e \<noteq> HelpExit"
  by (auto simp: copyfile_cases split: option.splits if_splits)

lemma after_copy_failed:
  assumes "fst (after_copy pf a inp fs) = Some e"
  shows "e \<noteq> HelpExit"
    and "map_option (take (length inp)) (files (snd (after_copy pf a inp fs)) (outfile a)) = Some inp"
    and "p \<noteq> outfile a \<Longrightarrow> files (snd (after_copy pf a inp fs)) p = files fs p"
  using assms by (auto simp: after_copy_def Let_def split: if_splits)

lemma after_copy_missing:
  "appendfile a \<noteq> outfile a \<Longrightarrow> files fs (appendfile a) = None \<Longrightarrow>
   after_copy pf a inp fs
     = (Some (FileNotFound (appendfile a)), fs\<lparr>files := (files fs)(outfile a \<mapsto> inp)\<rparr>)"
  by (simp add: after_copy_def Let_def)

lemma main_copied_args:
  assumes "parse_args cl = Inr \<lparr>infile = i, appendfile = x, outfile = out, identifier = ident\<rparr>"
    and "fst (copyfile i out fs) = None" and "files fs i = Some inp"
  shows "generate_entity_schema_main pf cl fs
    = after_copy pf \<lparr>infile = i, appendfile = x, outfile = out, identifier = ident\<rparr> inp fs"
proof -
  let ?a = "\<lparr>infile = i, appendfile = x, outfile = out, identifier = ident\<rparr>"
  from assms(2) have "fst (copyfile (infile ?a) (outfile ?a) fs) = None" by simp
  with assms(1) obtain inp' where "files fs (infile ?a) = Some inp'"
    "generate_entity_schema_main pf cl fs = after_copy pf ?a inp' fs"
    by (rule main_copied)
  with assms(3) show ?thesis by simp
qed

lemma copyfile_source: "fst (copyfile src dst fs) = None \<Longrightarrow> files fs src \<noteq> None"
  by (auto simp: copyfile_cases split: if_splits option.splits)

subsection \<open>Evaluating the examples\<close>

lemmas run_defs =
  generate_entity_schema_main_def parse_args_def copyfile_def samefile_def open_read_def
  open_truncate_def open_append_def read_text_def file_write_def write_bytes_def contents_def
  translate_out_def identifier_line_def

lemmas example_defs =
  example_fs_def example_platform_def example_cmdline_def example_no_infile_def example_help_def
  example_crlf_fs_def example_crlf_input_fs_def example_readonly_fs_def example_small_fs_def
  example_bad_identifier_def carriage_return_def newline_def quote_def

subsection \<open>The claims\<close>







text \<open>
  Claim C4, as amended. With all four flags given and no help asked for: if the input
  file does not exist, the run fails with file-not-found for it, a nonzero status and the
  file system untouched; if the append file does not exist and its path is not the
  output path, the run fails with a nonzero status, and with file-not-found for the
  append file whenever the copy went through. Nothing is rolled back: a run that fails
  after the copy (the append file missing, unreadable or not decodable, or an error while
  appending) ends with a nonzero status and leaves the output file in place, holding at
  least the copy of the input file, and every other path as it was.
\<close>

theorem schema_appender_missing_file:
  assumes "\<not> arg_help cl" "arg_infile cl = Some i" "arg_appendfile cl = Some x"
    "arg_outfile cl = Some out" "arg_identifier cl = Some ident"
  shows "(files fs i = None \<longrightarrow>
            generate_entity_schema_main pf cl fs = (Some (FileNotFound i), fs)
            \<and> exit_code (fst (generate_entity_schema_main pf cl fs)) \<noteq> 0)
    \<and> (files fs x = None \<and> x \<noteq> out \<longrightarrow>
            exit_code (fst (generate_entity_schema_main pf cl fs)) \<noteq> 0
            \<and> (fst (copyfile i out fs) = None \<longrightarrow>
                  fst (generate_entity_schema_main pf cl fs) = Some (FileNotFound x)))
    \<and> (files fs i = Some inp \<and> fst (copyfile i out fs) = None
          \<and> fst (generate_entity_schema_main pf cl fs) \<noteq> None \<longrightarrow>
            exit_code (fst (generate_entity_schema_main pf cl fs)) \<noteq> 0
            \<and> map_option (take (length inp))
                 (files (snd (generate_entity_schema_main pf cl fs)) out) = Some inp
            \<and> (p \<noteq> out \<longrightarrow> files (snd (generate_entity_schema_main pf cl fs)) p = files fs p))"
proof -
  let ?a = "\<lparr>infile = i, appendfile = x, outfile = out, identifier = ident\<rparr>"
  let ?main = "generate_entity_schema_main pf cl fs"
  have p: "parse_args cl = Inr ?a"
    using assms by (rule parse_args_Inr)
  have no_input: "?main = (Some (FileNotFound i), fs) \<and> exit_code (fst ?main) \<noteq> 0"
    if "files fs i = None"
  proof -
    from that have c: "copyfile i out fs = (Some (FileNotFound i), fs)"
      by (simp add: copyfile_cases)
    with main_copy_failed [OF p, of fs "FileNotFound i" pf] show ?thesis by simp
  qed
  have copied: "?main = after_copy pf ?a inp' fs" if "fst (copyfile i out fs) = None"
    "files fs i = Some inp'" for inp'
    using p that by (rule main_copied_args)
  have fails: "exit_code (fst ?main) \<noteq> 0" if "fst ?main = Some e" for e
  proof (cases "fst (copyfile i out fs)")
    case (Some e')
    with main_copy_failed [OF p, of fs e' pf] copyfile_error [of i out fs e'] show ?thesis
      by (simp add: exit_code_nonzero)
  next
    case None
    with copyfile_source [of i out fs] obtain inp' where "files fs i = Some inp'" by auto
    with None have "?main = after_copy pf ?a inp' fs" by (rule copied)
    with that after_copy_failed(1) [of pf ?a inp' fs e] show ?thesis
      by (simp add: exit_code_nonzero)
  qed
  have no_append: "exit_code (fst ?main) \<noteq> 0
      \<and> (fst (copyfile i out fs) = None \<longrightarrow> fst ?main = Some (FileNotFound x))"
    if "files fs x = None" "x \<noteq> out"
  proof (cases "fst (copyfile i out fs)")
    case (Some e')
    with main_copy_failed [OF p, of fs e' pf] copyfile_error [of i out fs e'] show ?thesis
      by (simp add: exit_code_nonzero)
  next
    case None
    with copyfile_source [of i out fs] obtain inp' where "files fs i = Some inp'" by auto
    with None have "?main = after_copy pf ?a inp' fs" by (rule copied)
    with that None after_copy_missing [of ?a fs pf inp'] show ?thesis
      by simp
  qed
  have kept: "exit_code (fst ?main) \<noteq> 0
      \<and> map_option (take (length inp)) (files (snd ?main) out) = Some inp
      \<and> (p \<noteq> out \<longrightarrow> files (snd ?main) p = files fs p)"
    if "files fs i = Some inp" "fst (copyfile i out fs) = None" "fst ?main \<noteq> None"
  proof -
    from that(3) obtain e where e: "fst ?main = Some e" by auto
    from copied [OF that(2,1)] have m: "?main = after_copy pf ?a inp fs" .
    from e m have "fst (after_copy pf ?a inp fs) = Some e" by simp
    from after_copy_failed(2) [OF this] after_copy_failed(3) [OF this, of p] fails [OF e] m
    show ?thesis by simp
  qed
  show ?thesis using no_input no_append kept by blast
qed

theorem schema_appender_missing_file_witness:
  "files example_fs ''absent.fbs'' = None
   \<and> generate_entity_schema_main example_platform
        (example_cmdline ''absent.fbs'' ''entity.fbs'' ''out.fbs'') example_fs
       = (Some (FileNotFound ''absent.fbs''), example_fs)
   \<and> exit_code (fst (generate_entity_schema_main example_platform
        (example_cmdline ''absent.fbs'' ''entity.fbs'' ''out.fbs'') example_fs)) \<noteq> 0
   \<and> ''absent.fbs'' \<noteq> ''out.fbs''
   \<and> fst (copyfile ''component.fbs'' ''out.fbs'' example_fs) = None
   \<and> fst (generate_entity_schema_main example_platform
        (example_cmdline ''component.fbs'' ''absent.fbs'' ''out.fbs'') example_fs)
       = Some (FileNotFound ''absent.fbs'')
   \<and> exit_code (fst (generate_entity_schema_main example_platform
        (example_cmdline ''component.fbs'' ''absent.fbs'' ''out.fbs'') example_fs)) \<noteq> 0
   \<and> map_option (take (length (''table Foo {}'' @ [newline])))
        (files (snd (generate_entity_schema_main example_platform
          (example_cmdline ''component.fbs'' ''absent.fbs'' ''out.fbs'') example_fs)) ''out.fbs'')
       = Some (''table Foo {}'' @ [newline])
   \<and> fst (generate_entity_schema_main example_platform example_bad_identifier example_fs)
       = Some (EncodeError ''out.fbs'')
   \<and> exit_code (fst (generate_entity_schema_main example_platform example_bad_identifier
        example_fs)) \<noteq> 0
   \<and> map_option (take (length (''table Foo {}'' @ [newline])))
        (files (snd (generate_entity_schema_main example_platform example_bad_identifier
          example_fs)) ''out.fbs'')
       = Some (''table Foo {}'' @ [newline])
   \<and> files (snd (generate_entity_schema_main example_platform example_bad_identifier
          example_fs)) ''out.fbs''
       = Some (''table Foo {}'' @ [newline] @ ''table Bar {}'' @ [newline])
   \<and> fst (copyfile ''component.fbs'' ''out.fbs'' example_small_fs) = None
   \<and> fst (generate_entity_schema_main example_platform
        (example_cmdline ''component.fbs'' ''entity.fbs'' ''out.fbs'') example_small_fs)
       = Some (WriteError ''out.fbs'')
   \<and> exit_code (fst (generate_entity_schema_main example_platform
        (example_cmdline ''component.fbs'' ''entity.fbs'' ''out.fbs'') example_small_fs)) \<noteq> 0
   \<and> map_option (take (length (''table Foo {}'' @ [newline])))
        (files (snd (generate_entity_schema_main example_platform
          (example_cmdline ''component.fbs'' ''entity.fbs'' ''out.fbs'') example_small_fs))
          ''out.fbs'')
       = Some (''table Foo {}'' @ [newline])
   \<and> files (snd (generate_entity_schema_main example_platform
          (example_cmdline ''component.fbs'' ''entity.fbs'' ''out.fbs'') example_small_fs))
          ''out.fbs''
       = Some (''table Foo {}'' @ [newline] @ ''table B'')"
proof -
  let ?no_in = "example_cmdline ''absent.fbs'' ''entity.fbs'' ''out.fbs''"
  let ?no_app = "example_cmdline ''component.fbs'' ''absent.fbs'' ''out.fbs''"
  let ?both = "example_cmdline ''component.fbs'' ''entity.fbs'' ''out.fbs''"
  have args1: "\<not> arg_help ?no_in" "arg_infile ?no_in = Some ''absent.fbs''"
    "arg_appendfile ?no_in = Some ''entity.fbs''"
    "arg_outfile ?no_in = Some ''out.fbs''" "arg_identifier ?no_in = Some ''FOOX''"
    by (simp_all add: example_cmdline_def)
  have args2: "\<not> arg_help ?no_app" "arg_infile ?no_app = Some ''component.fbs''"
    "arg_appendfile ?no_app = Some ''absent.fbs''"
    "arg_outfile ?no_app = Some ''out.fbs''" "arg_identifier ?no_app = Some ''FOOX''"
    by (simp_all add: example_cmdline_def)
  have args3: "\<not> arg_help example_bad_identifier"
    "arg_infile example_bad_identifier = Some ''component.fbs''"
    "arg_appendfile example_bad_identifier = Some ''entity.fbs''"
    "arg_outfile example_bad_identifier = Some ''out.fbs''"
    "arg_identifier example_bad_identifier = Some [CHR 0xFF]"
    by (simp_all add: example_bad_identifier_def)
  have args4: "\<not> arg_help ?both" "arg_infile ?both = Some ''component.fbs''"
    "arg_appendfile ?both = Some ''entity.fbs''"
    "arg_outfile ?both = Some ''out.fbs''" "arg_identifier ?both = Some ''FOOX''"
    by (simp_all add: example_cmdline_def)
  have absent: "files example_fs ''absent.fbs'' = None"
    by (simp add: example_fs_def)
  have there: "files example_fs ''component.fbs'' = Some (''table Foo {}'' @ [newline])"
    "files example_small_fs ''component.fbs'' = Some (''table Foo {}'' @ [newline])"
    by (simp_all add: example_fs_def example_small_fs_def)
  have copied: "fst (copyfile ''component.fbs'' ''out.fbs'' example_fs) = None"
    "fst (copyfile ''component.fbs'' ''out.fbs'' example_small_fs) = None"
    by (simp_all add: copyfile_cases fits_def example_fs_def example_small_fs_def newline_def)
  have distinct: "''absent.fbs'' \<noteq> ''out.fbs''"
    by simp
  have bad: "generate_entity_schema_main example_platform example_bad_identifier example_fs
      = (Some (EncodeError ''out.fbs''),
         example_fs\<lparr>files := (files example_fs)
           (''out.fbs'' \<mapsto> ''table Foo {}'' @ [newline] @ ''table Bar {}'' @ [newline])\<rparr>)"
    by (simp add: run_defs example_defs)
  have small: "generate_entity_schema_main example_platform ?both example_small_fs
      = (Some (WriteError ''out.fbs''),
         example_small_fs\<lparr>files := (files example_small_fs)
           (''out.fbs'' \<mapsto> ''table Foo {}'' @ [newline] @ ''table B'')\<rparr>)"
    by (simp add: run_defs example_defs)
  from schema_appender_missing_file [OF args1, of example_fs example_platform]
    schema_appender_missing_file [OF args2, where fs = example_fs and pf = example_platform
      and inp = "''table Foo {}'' @ [newline]"]
    schema_appender_missing_file [OF args3, where fs = example_fs and pf = example_platform
      and inp = "''table Foo {}'' @ [newline]"]
    schema_appender_missing_file [OF args4, where fs = example_small_fs
      and pf = example_platform and inp = "''table Foo {}'' @ [newline]"]
  show ?thesis
    using absent there copied distinct bad small by simp
qed

text \<open>
  Claim C4 as stated fails in three ways. When the missing append file is the output
  path, the copy creates it and the run goes through with status 0. When the append file
  is missing and the output path cannot be opened for writing, the run fails in the copy
  with access denied, not with file-not-found. When help is asked for, the run ends with
  status 0 though the input file is missing.
\<close>

theorem schema_appender_missing_append_counterexample:
  "arg_appendfile (example_cmdline ''component.fbs'' ''new.fbs'' ''new.fbs'') = Some ''new.fbs''
   \<and> files example_fs ''new.fbs'' = None
   \<and> fst (generate_entity_schema_main example_platform
        (example_cmdline ''component.fbs'' ''new.fbs'' ''new.fbs'') example_fs) = None
   \<and> exit_code (fst (generate_entity_schema_main example_platform
        (example_cmdline ''component.fbs'' ''new.fbs'' ''new.fbs'') example_fs)) = 0
   \<and> files example_readonly_fs ''absent.fbs'' = None
   \<and> fst (generate_entity_schema_main example_platform
        (example_cmdline ''component.fbs'' ''absent.fbs'' ''out.fbs'') example_readonly_fs)
       = Some (AccessDenied ''out.fbs'')
   \<and> fst (generate_entity_schema_main example_platform
        (example_cmdline ''component.fbs'' ''absent.fbs'' ''out.fbs'') example_readonly_fs)
       \<noteq> Some (FileNotFound ''absent.fbs'')
   \<and> arg_infile ((example_cmdline ''absent.fbs'' ''entity.fbs'' ''out.fbs'')\<lparr>arg_help := True\<rparr>)
       = Some ''absent.fbs''
   \<and> exit_code (fst (generate_entity_schema_main example_platform
        ((example_cmdline ''absent.fbs'' ''entity.fbs'' ''out.fbs'')\<lparr>arg_help := True\<rparr>)
        example_fs)) = 0"
  by (simp add: run_defs example_defs)

text \<open>
  Claim C5. A second run with the same command line on the file system a successful run
  left succeeds and leaves the same file system, so the same output file. A file already
  at the output path is overwritten: whatever it held before, the run succeeds with the
  same result.
\<close>

theorem schema_appender_idempotent:
  assumes "arg_outfile cl = Some out"
    and "fst (generate_entity_schema_main pf cl fs) = None"
  shows "generate_entity_schema_main pf cl (snd (generate_entity_schema_main pf cl fs))
           = generate_entity_schema_main pf cl fs
    \<and> generate_entity_schema_main pf cl (fs\<lparr>files := (files fs)(out \<mapsto> old)\<rparr>)
           = generate_entity_schema_main pf cl fs"
proof -
  from assms(2) obtain a where p: "parse_args cl = Inr a" and ok: "run_ok pf a fs"
    by (rule main_success)
  from parse_args_outfile [OF p] assms(1) have out: "outfile a = out"
    by simp
  have first: "generate_entity_schema_main pf cl fs = (None, run_result pf a fs)"
    using p ok by (rule main_succeeds)
  have again: "generate_entity_schema_main pf cl (run_result pf a fs) = (None, run_result pf a fs)"
    using main_succeeds [OF p run_ok_result [OF ok]] run_result_idem [OF ok] by simp
  have over: "generate_entity_schema_main pf cl (fs\<lparr>files := (files fs)(out \<mapsto> old)\<rparr>)
      = (None, run_result pf a fs)"
    using main_succeeds [OF p run_ok_overwrite [OF ok, of old]] run_result_overwrite [OF ok, of old]
    by (simp add: out)
  show ?thesis using first again over by simp
qed

theorem schema_appender_idempotent_witness:
  "fst (generate_entity_schema_main example_platform
        (example_cmdline ''component.fbs'' ''entity.fbs'' ''out.fbs'') example_fs) = None
   \<and> generate_entity_schema_main example_platform
        (example_cmdline ''component.fbs'' ''entity.fbs'' ''out.fbs'')
        (snd (generate_entity_schema_main example_platform
          (example_cmdline ''component.fbs'' ''entity.fbs'' ''out.fbs'') example_fs))
       = generate_entity_schema_main example_platform
          (example_cmdline ''component.fbs'' ''entity.fbs'' ''out.fbs'') example_fs
   \<and> generate_entity_schema_main example_platform
        (example_cmdline ''component.fbs'' ''entity.fbs'' ''out.fbs'')
        (example_fs\<lparr>files := (files example_fs)(''out.fbs'' \<mapsto> ''stale'')\<rparr>)
       = generate_entity_schema_main example_platform
          (example_cmdline ''component.fbs'' ''entity.fbs'' ''out.fbs'') example_fs"
proof -
  let ?cl = "example_cmdline ''component.fbs'' ''entity.fbs'' ''out.fbs''"
  have out: "arg_outfile ?cl = Some ''out.fbs''"
    by (simp add: example_cmdline_def)
  have ok: "fst (generate_entity_schema_main example_platform ?cl example_fs) = None"
    by (simp add: run_defs example_defs)
  from schema_appender_idempotent [OF out ok, of "''stale''"] ok
  show ?thesis by simp
qed

text \<open>
  Claim C8. On a successful run whose output path differs from the input-file and
  append-file paths, the input file and the append file are as before, every path other
  than the output path holds what it held, and permissions are unchanged.
\<close>

theorem schema_appender_frame:
  assumes "arg_infile cl = Some i" "arg_appendfile cl = Some x" "arg_outfile cl = Some out"
    and "fst (generate_entity_schema_main pf cl fs) = None"
    and "out \<noteq> i" "out \<noteq> x"
  shows "files (snd (generate_entity_schema_main pf cl fs)) i = files fs i
    \<and> files (snd (generate_entity_schema_main pf cl fs)) x = files fs x
    \<and> (p \<noteq> out \<longrightarrow> files (snd (generate_entity_schema_main pf cl fs)) p = files fs p)
    \<and> readable (snd (generate_entity_schema_main pf cl fs)) = readable fs
    \<and> writable (snd (generate_entity_schema_main pf cl fs)) = writable fs"
proof -
  from assms(4) obtain a where p: "parse_args cl = Inr a" and ok: "run_ok pf a fs"
    by (rule main_success)
  from parse_args_outfile [OF p] assms(3) have out: "outfile a = out"
    by simp
  have first: "snd (generate_entity_schema_main pf cl fs) = run_result pf a fs"
    using main_succeeds [OF p ok] by simp
  show ?thesis
    using assms(5,6) by (simp add: first run_result_files run_result_perms out)
qed

theorem schema_appender_frame_witness:
  "fst (generate_entity_schema_main example_platform
        (example_cmdline ''component.fbs'' ''entity.fbs'' ''out.fbs'') example_fs) = None
   \<and> ''out.fbs'' \<noteq> ''component.fbs'' \<and> ''out.fbs'' \<noteq> ''entity.fbs''
   \<and> files (snd (generate_entity_schema_main example_platform
        (example_cmdline ''component.fbs'' ''entity.fbs'' ''out.fbs'') example_fs)) ''component.fbs''
       = Some (''table Foo {}'' @ [newline])
   \<and> files (snd (generate_entity_schema_main example_platform
        (example_cmdline ''component.fbs'' ''entity.fbs'' ''out.fbs'') example_fs)) ''entity.fbs''
       = Some (''table Bar {}'' @ [newline])
   \<and> files (snd (generate_entity_schema_main example_platform
        (example_cmdline ''component.fbs'' ''entity.fbs'' ''out.fbs'') example_fs)) ''other.fbs''
       = None"
proof -
  let ?cl = "example_cmdline ''component.fbs'' ''entity.fbs'' ''out.fbs''"
  have args: "arg_infile ?cl = Some ''component.fbs''" "arg_appendfile ?cl = Some ''entity.fbs''"
    "arg_outfile ?cl = Some ''out.fbs''"
    by (simp_all add: example_cmdline_def)
  have ok: "fst (generate_entity_schema_main example_platform ?cl example_fs) = None"
    by (simp add: run_defs example_defs)
  have distinct: "''out.fbs'' \<noteq> ''component.fbs''" "''out.fbs'' \<noteq> ''entity.fbs''"
    by simp_all
  have before: "files example_fs ''component.fbs'' = Some (''table Foo {}'' @ [newline])"
    "files example_fs ''entity.fbs'' = Some (''table Bar {}'' @ [newline])"
    "files example_fs ''other.fbs'' = None"
    by (simp_all add: example_fs_def)
  from schema_appender_frame [OF args ok distinct, of "''other.fbs''"] ok
  show ?thesis
    using before by simp
qed

text \<open>
  Claim C10, as amended. When \<open>--appendfile\<close> and \<open>--outfile\<close> are the same path, the copy
  comes before the read, so what is read and appended is the copied input content as
  text mode passes it on: a successful run leaves the input content, then the input
  content with every line end read as a line feed and every line feed written as the
  line separator, then the identifier line. When the input holds no carriage return and
  the line separator is the line feed, that is the input content twice and the
  identifier line, not the input content and the former append content (when that
  differs from the input content). The run succeeds when no help is asked for, the
  input path is another path, readable, the shared path is readable and writable, the input decodes, the text
  read and the identifier line encode, and the device takes the output.
\<close>

theorem schema_appender_append_is_output:
  assumes "arg_infile cl = Some i" "arg_appendfile cl = Some out"
    "arg_outfile cl = Some out" "arg_identifier cl = Some ident"
    and "files fs i = Some inp"
  shows "(\<not> arg_help cl \<and> i \<noteq> out \<and> readable fs i \<and> readable fs out \<and> writable fs out
          \<and> decodable pf inp \<and> encodable pf (universal_newlines inp)
          \<and> encodable pf (identifier_line ident)
          \<and> fits fs (length inp
               + length (translate_out (linesep pf) (universal_newlines inp))
               + length (translate_out (linesep pf) (identifier_line ident))) \<longrightarrow>
            fst (generate_entity_schema_main pf cl fs) = None)
    \<and> (fst (generate_entity_schema_main pf cl fs) = None \<longrightarrow>
          files (snd (generate_entity_schema_main pf cl fs)) out
            = Some (inp @ translate_out (linesep pf) (universal_newlines inp)
                @ translate_out (linesep pf) (identifier_line ident))
          \<and> (carriage_return \<notin> set inp \<and> linesep pf = [newline] \<longrightarrow>
                files (snd (generate_entity_schema_main pf cl fs)) out
                  = Some (inp @ inp @ identifier_line ident)
                \<and> (files fs out = Some app \<and> app \<noteq> inp \<longrightarrow>
                      files (snd (generate_entity_schema_main pf cl fs)) out
                        \<noteq> Some (inp @ app @ identifier_line ident))))"
proof -
  let ?a = "\<lparr>infile = i, appendfile = out, outfile = out, identifier = ident\<rparr>"
  let ?main = "generate_entity_schema_main pf cl fs"
  have p: "parse_args cl = Inr ?a" if "\<not> arg_help cl"
    using that assms(1-4) by (rule parse_args_Inr)
  have src: "appended_source ?a fs = inp"
    using assms(5) by (simp add: appended_source_def contents_def)
  have bytes: "output_bytes pf ?a fs
      = inp @ translate_out (linesep pf) (universal_newlines inp)
        @ translate_out (linesep pf) (identifier_line ident)"
    using assms(5) by (simp add: output_bytes_def src contents_def)
  have succeeds: "fst ?main = None"
    if "\<not> arg_help cl" "i \<noteq> out" "readable fs i" "readable fs out" "writable fs out"
      "decodable pf inp" "encodable pf (universal_newlines inp)"
      "encodable pf (identifier_line ident)"
      "fits fs (length inp + length (translate_out (linesep pf) (universal_newlines inp))
         + length (translate_out (linesep pf) (identifier_line ident)))"
  proof -
    have "run_ok pf ?a fs"
      using that(2-) assms(5) unfolding run_ok_def src bytes
      by (simp add: add.assoc)
    from main_succeeds [OF p [OF that(1)] this] show ?thesis by simp
  qed
  have content: "files (snd ?main) out = Some (output_bytes pf ?a fs)" if "fst ?main = None"
  proof -
    from that obtain a where a: "parse_args cl = Inr a" and ok: "run_ok pf a fs"
      by (rule main_success)
    from a assms(1-4) have "a = ?a"
      by (auto simp: parse_args_def split: if_splits)
    with a ok have "parse_args cl = Inr ?a" "run_ok pf ?a fs" by simp_all
    from main_succeeds [OF this] show ?thesis
      by (simp add: run_result_files)
  qed
  have plain: "output_bytes pf ?a fs = inp @ inp @ identifier_line ident"
    if "carriage_return \<notin> set inp" "linesep pf = [newline]"
    using that by (simp add: bytes translate_out_newline universal_newlines_plain)
  show ?thesis
    using succeeds content plain by (auto simp: bytes)
qed

theorem schema_appender_append_is_output_witness:
  "files example_fs ''component.fbs'' = Some (''table Foo {}'' @ [newline])
   \<and> files example_fs ''entity.fbs'' = Some (''table Bar {}'' @ [newline])
   \<and> fst (generate_entity_schema_main example_platform
        (example_cmdline ''component.fbs'' ''entity.fbs'' ''entity.fbs'') example_fs) = None
   \<and> files (snd (generate_entity_schema_main example_platform
        (example_cmdline ''component.fbs'' ''entity.fbs'' ''entity.fbs'') example_fs)) ''entity.fbs''
       = Some ((''table Foo {}'' @ [newline]) @ (''table Foo {}'' @ [newline])
               @ identifier_line ''FOOX'')
   \<and> files (snd (generate_entity_schema_main example_platform
        (example_cmdline ''component.fbs'' ''entity.fbs'' ''entity.fbs'') example_fs)) ''entity.fbs''
       \<noteq> Some ((''table Foo {}'' @ [newline]) @ (''table Bar {}'' @ [newline])
               @ identifier_line ''FOOX'')"
proof -
  let ?cl = "example_cmdline ''component.fbs'' ''entity.fbs'' ''entity.fbs''"
  have args: "arg_infile ?cl = Some ''component.fbs''"
    "arg_appendfile ?cl = Some ''entity.fbs''"
    "arg_outfile ?cl = Some ''entity.fbs''" "arg_identifier ?cl = Some ''FOOX''"
    by (simp_all add: example_cmdline_def)
  have asked: "\<not> arg_help ?cl"
    by (simp add: example_cmdline_def)
  have there: "files example_fs ''component.fbs'' = Some (''table Foo {}'' @ [newline])"
    "files example_fs ''entity.fbs'' = Some (''table Bar {}'' @ [newline])"
    by (simp_all add: example_fs_def)
  have perms: "readable example_fs ''component.fbs''" "readable example_fs ''entity.fbs''"
    "writable example_fs ''entity.fbs''"
    by (simp_all add: example_fs_def)
  have distinct: "''component.fbs'' \<noteq> ''entity.fbs''"
      "''table Bar {}'' @ [newline] \<noteq> ''table Foo {}'' @ [newline]"
    by simp_all
  have host: "carriage_return \<notin> set (''table Foo {}'' @ [newline])"
    "linesep example_platform = [newline]"
    "decodable example_platform (''table Foo {}'' @ [newline])"
    "encodable example_platform (universal_newlines (''table Foo {}'' @ [newline]))"
    "encodable example_platform (identifier_line ''FOOX'')"
    by (simp_all add: example_platform_def carriage_return_def newline_def quote_def
        identifier_line_def)
  have room: "fits example_fs n" for n
    by (simp add: fits_def example_fs_def)
  from schema_appender_append_is_output [OF args there(1), of example_platform
      "''table Bar {}'' @ [newline]"]
  show ?thesis
    using asked there perms distinct host room
    by (simp add: carriage_return_def newline_def quote_def identifier_line_def translate_out_def)
qed

text \<open>
  Claim C10 as stated fails when the input file ends its lines with carriage return and
  line feed: the second copy of the input content holds line feeds in their place.
\<close>

theorem schema_appender_append_is_output_counterexample:
  "files example_crlf_input_fs ''component.fbs'' = Some (''table Foo {}'' @ [carriage_return, newline])
   \<and> fst (generate_entity_schema_main example_platform
        (example_cmdline ''component.fbs'' ''entity.fbs'' ''entity.fbs'') example_crlf_input_fs) = None
   \<and> files (snd (generate_entity_schema_main example_platform
        (example_cmdline ''component.fbs'' ''entity.fbs'' ''entity.fbs'') example_crlf_input_fs))
        ''entity.fbs''
       = Some ((''table Foo {}'' @ [carriage_return, newline]) @ (''table Foo {}'' @ [newline])
               @ identifier_line ''FOOX'')
   \<and> files (snd (generate_entity_schema_main example_platform
        (example_cmdline ''component.fbs'' ''entity.fbs'' ''entity.fbs'') example_crlf_input_fs))
        ''entity.fbs''
       \<noteq> Some ((''table Foo {}'' @ [carriage_return, newline])
               @ (''table Foo {}'' @ [carriage_return, newline])
               @ identifier_line ''FOOX'')"
  by (simp add: run_defs example_defs)

end
